theory Spec2Isabelle
  imports Complex_Main "HOL-Library.AList"
begin

section \<open>Python numbers used by \<open>stock_market_simulator.py\<close>\<close>

text \<open>
  A Python number is modelled by its value, a real. The module's arithmetic is the true
  division \<open>/\<close>, \<open>*\<close>, \<open>sum\<close>, \<open>prod\<close> and \<open>**\<close>. The rounding of a double to 53
  bits is not modelled anywhere. The dividend yield and the volume weighted price are
  computed in this exact arithmetic, with the one exception the division can raise there,
  \<open>ZeroDivisionError\<close>, and the \<open>TypeError\<close> of multiplying \<open>None\<close>.
\<close>

datatype py_error = ZeroDivisionError | TypeError | OverflowError

text \<open>The operator \<open>a / b\<close> in exact arithmetic: it raises when the divisor is zero.\<close>

definition truediv :: "real \<Rightarrow> real \<Rightarrow> py_error + real" where
  "truediv a b = (if b = 0 then Inl ZeroDivisionError else Inr (a / b))"

subsection \<open>The range of a double\<close>

text \<open>
  The price/earnings ratio and the index are computed with the range of a double as
  well: a float is a finite value, an infinity or a NaN; the zeros are not told apart. A
  result of magnitude \<open>2^1024 - 2^970\<close> or more does not round to a finite double.
\<close>

datatype py_float = Fin real | PInf | NInf | NaN

definition dbl_bound :: real where
  "dbl_bound = 2 ^ 1024 - 2 ^ 970"

definition dbl_overflow :: "real \<Rightarrow> bool" where
  "dbl_overflow r = (dbl_bound \<le> \<bar>r\<bar>)"

definition round_float :: "real \<Rightarrow> py_float" where
  "round_float r = (if dbl_overflow r then (if 0 < r then PInf else NInf) else Fin r)"

text \<open>
  An operand is an \<open>int\<close>, of any size, or a \<open>float\<close>. The number objects that the caller
  hands to the module are read from their values as the module's own literals are
  written (\<open>110\<close>, \<open>8\<close>, \<open>0.02\<close>): an integral value is an \<open>int\<close>, any other value is a
  \<open>float\<close>.
\<close>

datatype py_number = PyInt int | PyFloat py_float

definition py_number_of :: "real \<Rightarrow> py_number" where
  "py_number_of r = (if r = of_int \<lfloor>r\<rfloor> then PyInt \<lfloor>r\<rfloor> else PyFloat (round_float r))"

text \<open>The conversion of an \<open>int\<close> operand to a double, which raises when it is too large.\<close>

definition float_of_int :: "int \<Rightarrow> py_error + py_float" where
  "float_of_int i = (if dbl_overflow (of_int i) then Inl OverflowError else Inr (Fin (of_int i)))"

definition to_float :: "py_number \<Rightarrow> py_error + py_float" where
  "to_float a = (case a of PyInt i \<Rightarrow> float_of_int i | PyFloat x \<Rightarrow> Inr x)"

text \<open>Products and quotients of doubles: IEEE 754 on the infinities and NaN.\<close>

fun float_sgn :: "py_float \<Rightarrow> real" where
  "float_sgn (Fin x) = sgn x"
| "float_sgn PInf = 1"
| "float_sgn NInf = - 1"
| "float_sgn NaN = 0"

definition signed_inf :: "real \<Rightarrow> py_float" where
  "signed_inf s = (if 0 < s then PInf else if s < 0 then NInf else NaN)"

fun float_mul :: "py_float \<Rightarrow> py_float \<Rightarrow> py_float" where
  "float_mul NaN y = NaN"
| "float_mul x NaN = NaN"
| "float_mul (Fin x) (Fin y) = round_float (x * y)"
| "float_mul x y = signed_inf (float_sgn x * float_sgn y)"

text \<open>The quotient of two doubles, for a divisor that is not zero.\<close>

fun float_div :: "py_float \<Rightarrow> py_float \<Rightarrow> py_float" where
  "float_div NaN y = NaN"
| "float_div x NaN = NaN"
| "float_div (Fin x) (Fin y) = round_float (x / y)"
| "float_div (Fin x) y = Fin 0"
| "float_div x (Fin y) = signed_inf (float_sgn x * sgn y)"
| "float_div x y = NaN"

text \<open>
  The operator \<open>a / b\<close>. Two \<open>int\<close>s are divided exactly: the zero divisor is checked
  first, and a quotient beyond the range raises \<open>OverflowError\<close>. With a \<open>float\<close> among
  the operands both are converted first, then the zero divisor is checked, and the
  quotient of doubles overflows to an infinity without raising.
\<close>

definition py_truediv :: "py_number \<Rightarrow> py_number \<Rightarrow> py_error + py_float" where
  "py_truediv a b =
     (case (a, b) of
        (PyInt i, PyInt j) \<Rightarrow>
          (if j = 0 then Inl ZeroDivisionError
           else if dbl_overflow (of_int i / of_int j) then Inl OverflowError
           else Inr (Fin (of_int i / of_int j)))
      | _ \<Rightarrow>
          (case to_float a of
             Inl e \<Rightarrow> Inl e
           | Inr x \<Rightarrow>
               (case to_float b of
                  Inl e \<Rightarrow> Inl e
                | Inr y \<Rightarrow>
                    (if y = Fin 0 then Inl ZeroDivisionError else Inr (float_div x y)))))"

text \<open>The operator \<open>a * b\<close>: exact on two \<open>int\<close>s, a product of doubles otherwise.\<close>

definition py_mul :: "py_number \<Rightarrow> py_number \<Rightarrow> py_error + py_number" where
  "py_mul a b =
     (case (a, b) of
        (PyInt i, PyInt j) \<Rightarrow> Inr (PyInt (i * j))
      | _ \<Rightarrow>
          (case to_float a of
             Inl e \<Rightarrow> Inl e
           | Inr x \<Rightarrow>
               (case to_float b of
                  Inl e \<Rightarrow> Inl e
                | Inr y \<Rightarrow> Inr (PyFloat (float_mul x y)))))"

text \<open>\<open>math.prod\<close>: the items are multiplied into the running result from the left.\<close>

fun py_prod :: "py_number \<Rightarrow> py_number list \<Rightarrow> py_error + py_number" where
  "py_prod result [] = Inr result"
| "py_prod result (item # items) =
     (case py_mul result item of
        Inl e \<Rightarrow> Inl e
      | Inr result' \<Rightarrow> py_prod result' items)"

text \<open>
  The result of \<open>x ** y\<close> on a float exponent is a float, or a complex number when a
  negative base meets a fractional exponent.
\<close>

datatype py_num = PyReal py_float | PyComplex complex

definition is_odd_integer :: "real \<Rightarrow> bool" where
  "is_odd_integer y = (y = of_int \<lfloor>y\<rfloor> \<and> odd \<lfloor>y\<rfloor>)"

text \<open>
  \<open>x ** y\<close> for finite doubles and \<open>y\<close> not zero, in the case order of CPython's
  \<open>float_pow\<close>: base zero; negative base with a fractional exponent, handed to the
  complex power, which takes the principal branch (modulus \<open>\<bar>x\<bar> ** y\<close>, argument
  \<open>pi * y\<close>); base of magnitude one; then the power of the magnitude, negated for a
  negative base and an odd exponent. A power beyond the range raises.
\<close>

definition finite_pow :: "real \<Rightarrow> real \<Rightarrow> py_error + py_num" where
  "finite_pow x y =
     (if x = 0 then (if y < 0 then Inl ZeroDivisionError else Inr (PyReal (Fin 0)))
      else if x < 0 \<and> y \<noteq> of_int \<lfloor>y\<rfloor> then
        (if dbl_overflow (\<bar>x\<bar> powr y) then Inl OverflowError
         else Inr (PyComplex (complex_of_real (\<bar>x\<bar> powr y) * cis (pi * y))))
      else if \<bar>x\<bar> = 1 then Inr (PyReal (Fin (if x < 0 \<and> is_odd_integer y then - 1 else 1)))
      else if dbl_overflow (\<bar>x\<bar> powr y) then Inl OverflowError
      else Inr (PyReal (Fin ((if x < 0 \<and> is_odd_integer y then - 1 else 1) * (\<bar>x\<bar> powr y)))))"

text \<open>
  \<open>v ** w\<close> on doubles, again in the order of \<open>float_pow\<close>: exponent zero, NaN base,
  NaN exponent, infinite exponent, infinite base, and the finite case.
\<close>

definition float_pow :: "py_float \<Rightarrow> py_float \<Rightarrow> py_error + py_num" where
  "float_pow v w =
     (if w = Fin 0 then Inr (PyReal (Fin 1))
      else if v = NaN then Inr (PyReal NaN)
      else case w of
        NaN \<Rightarrow> Inr (PyReal (if v = Fin 1 then Fin 1 else NaN))
      | PInf \<Rightarrow>
          Inr (PyReal (if v = Fin 1 \<or> v = Fin (- 1) then Fin 1
                       else if (case v of Fin x \<Rightarrow> 1 < \<bar>x\<bar> | _ \<Rightarrow> True) then PInf
                       else Fin 0))
      | NInf \<Rightarrow>
          Inr (PyReal (if v = Fin 1 \<or> v = Fin (- 1) then Fin 1
                       else if (case v of Fin x \<Rightarrow> 1 < \<bar>x\<bar> | _ \<Rightarrow> True) then Fin 0
                       else PInf))
      | Fin y \<Rightarrow>
          (case v of
             Fin x \<Rightarrow> finite_pow x y
           | NInf \<Rightarrow>
               Inr (PyReal (if 0 < y then (if is_odd_integer y then NInf else PInf) else Fin 0))
           | _ \<Rightarrow> Inr (PyReal (if 0 < y then PInf else Fin 0))))"


text \<open>
  A \<open>datetime\<close> is a count of microseconds, the resolution of \<open>datetime.now()\<close>; a
  \<open>timedelta\<close> is a difference of two such counts. The ambient clock is a parameter
  \<open>now\<close> of every function that reads it.
\<close>

type_synonym datetime = int
type_synonym timedelta = int

definition timedelta_minutes :: "int \<Rightarrow> timedelta" where
  "timedelta_minutes m = m * 60000000"

section \<open>class \<open>Stock\<close>\<close>

text \<open>A trade is the dictionary that \<open>record_trade\<close> builds, with its four keys.\<close>

record Trade =
  timestamp :: datetime
  quantity :: int
  action :: string
  price :: real

text \<open>
  The attributes of a \<open>Stock\<close> object. \<open>stock_type\<close> is the string the constructor was
  given, whatever it is; \<open>fixed_dividend\<close> may be \<open>None\<close>, as it is for the common stocks
  of the module's example.
\<close>

record Stock =
  symbol :: string
  stock_type :: string
  last_dividend :: real
  fixed_dividend :: "real option"
  par_value :: real
  trades :: "Trade list"

definition Stock_init :: "string \<Rightarrow> string \<Rightarrow> real \<Rightarrow> real option \<Rightarrow> real \<Rightarrow> Stock" where
  "Stock_init sy ty ld fd pv =
     \<lparr>symbol = sy, stock_type = ty, last_dividend = ld, fixed_dividend = fd,
      par_value = pv, trades = []\<rparr>"


text \<open>\<open>price / self.last_dividend\<close>, on the two number objects.\<close>

definition pe_ratio :: "Stock \<Rightarrow> real \<Rightarrow> py_error + py_float" where
  "pe_ratio self p = py_truediv (py_number_of p) (py_number_of (last_dividend self))"

text \<open>
  \<open>record_trade\<close> appends to \<open>self.trades\<close> and returns nothing: the model returns the
  object after the call. It has no check and no \<open>raise\<close>.
\<close>

definition record_trade :: "Stock \<Rightarrow> datetime \<Rightarrow> int \<Rightarrow> string \<Rightarrow> real \<Rightarrow> Stock" where
  "record_trade self now q a p =
     self\<lparr>trades := trades self @ [\<lparr>timestamp = now, quantity = q, action = a, price = p\<rparr>]\<rparr>"

text \<open>The list comprehension of \<open>volume_weighted_stock_price\<close>.\<close>

definition past_15_minutes_trades :: "datetime \<Rightarrow> Trade list \<Rightarrow> Trade list" where
  "past_15_minutes_trades now ts =
     filter (\<lambda>trade. now - timestamp trade \<le> timedelta_minutes 15) ts"

definition volume_weighted_stock_price :: "Stock \<Rightarrow> datetime \<Rightarrow> py_error + real" where
  "volume_weighted_stock_price self now =
     (let past = past_15_minutes_trades now (trades self);
          trade_sum = sum_list (map (\<lambda>trade. of_int (quantity trade) * price trade) past);
          quantity_sum = sum_list (map quantity past)
      in truediv trade_sum (of_int quantity_sum))"

section \<open>class \<open>StockMarket\<close>\<close>

text \<open>
  A \<open>StockMarket\<close> holds references to \<open>Stock\<close> objects that its caller keeps and goes
  on mutating (the module records its trades after it has built the market). So the
  objects live in a store, a \<open>Stock\<close> at every address, and the market's dictionary maps
  a symbol to an address. The dictionary is an association list in insertion order;
  storing under a key that is present replaces the value in place, otherwise the item
  goes to the end: \<^const>\<open>AList.update\<close>.
\<close>

type_synonym ref = nat
type_synonym store = "ref \<Rightarrow> Stock"

record StockMarket =
  stocks :: "(string \<times> ref) list"

definition store_record_trade ::
  "store \<Rightarrow> ref \<Rightarrow> datetime \<Rightarrow> int \<Rightarrow> string \<Rightarrow> real \<Rightarrow> store" where
  "store_record_trade h r now q a p = h(r := record_trade (h r) now q a p)"

definition StockMarket_init :: "store \<Rightarrow> ref list \<Rightarrow> StockMarket" where
  "StockMarket_init h rs =
     \<lparr>stocks = foldl (\<lambda>d stock. AList.update (symbol (h stock)) stock d) [] rs\<rparr>"

text \<open>The list \<open>prices\<close> that the loop of \<open>gbce_all_share_index\<close> builds.\<close>

definition prices :: "store \<Rightarrow> StockMarket \<Rightarrow> real list" where
  "prices h self = concat (map (\<lambda>stock. map price (trades (h stock))) (map snd (stocks self)))"

text \<open>
  \<open>prod(prices) ** (1.0 / len(prices))\<close>: the product first, from the \<open>int\<close> 1, then
  the quotient of the float 1.0 by the \<open>int\<close> length, which raises on an empty list, then
  the power.
\<close>

definition gbce_all_share_index :: "store \<Rightarrow> StockMarket \<Rightarrow> py_error + py_num" where
  "gbce_all_share_index h self =
     (let ps = prices h self
      in case py_prod (PyInt 1) (map py_number_of ps) of
           Inl e \<Rightarrow> Inl e
         | Inr product \<Rightarrow>
             (case py_truediv (PyFloat (Fin 1)) (PyInt (int (length ps))) of
                Inl e \<Rightarrow> Inl e
              | Inr y \<Rightarrow>
                  (case to_float product of
                     Inl e \<Rightarrow> Inl e
                   | Inr x \<Rightarrow> float_pow x y)))"

section \<open>The volume weighted price as the specification words it\<close>



section \<open>The stocks of the module's example\<close>

definition tea :: Stock where "tea = Stock_init ''TEA'' ''Common'' 0 None 100"
definition pop :: Stock where "pop = Stock_init ''POP'' ''Common'' 8 None 100"
definition ale :: Stock where "ale = Stock_init ''ALE'' ''Common'' 23 None 60"
definition gin :: Stock where "gin = Stock_init ''GIN'' ''Preferred'' 8 (Some (2 / 100)) 100"
definition joe :: Stock where "joe = Stock_init ''JOE'' ''Common'' 13 None 250"

text \<open>
  The market of the example: the five stocks at the addresses 0 to 4 of a store, the
  market built from them, and the store after the first and after all five of the
  example's calls of \<open>record_trade\<close> (the clock reads 0 to 4).
\<close>

definition example_store :: store where
  "example_store = (\<lambda>_. tea)(1 := pop, 2 := ale, 3 := gin, 4 := joe)"

definition gbce :: StockMarket where
  "gbce = StockMarket_init example_store [0, 1, 2, 3, 4]"




text \<open>Two stocks that carry the same symbol.\<close>

definition two_pops :: store where
  "two_pops = (\<lambda>_. pop)(1 := Stock_init ''POP'' ''Preferred'' 9 (Some (3 / 100)) 50)"

section \<open>Price/earnings ratio\<close>

lemma one_less_dbl_bound: "1 < dbl_bound"
  by (simp add: dbl_bound_def)

lemma not_dbl_overflow_mono: "\<bar>a\<bar> \<le> \<bar>b\<bar> \<Longrightarrow> \<not> dbl_overflow b \<Longrightarrow> \<not> dbl_overflow a"
  by (simp add: dbl_overflow_def)


lemma round_float_in_range: "\<not> dbl_overflow r \<Longrightarrow> round_float r = Fin r"
  by (simp add: round_float_def)

lemma to_float_py_number_of:
  "\<not> dbl_overflow r \<Longrightarrow> to_float (py_number_of r) = Inr (Fin r)"
  by (simp add: to_float_def py_number_of_def float_of_int_def round_float_in_range)



lemma int_quotient_in_range:
  assumes "\<not> dbl_overflow (of_int i)" and "j \<noteq> 0"
  shows "\<not> dbl_overflow (of_int i / of_int j)"
proof -
  have "1 \<le> \<bar>real_of_int j\<bar>" using assms(2) by linarith
  then have "\<bar>real_of_int i\<bar> / \<bar>real_of_int j\<bar> \<le> \<bar>real_of_int i\<bar> / 1"
    by (intro divide_left_mono) simp_all
  then have "\<bar>real_of_int i / real_of_int j\<bar> \<le> \<bar>real_of_int i\<bar>"
    by simp
  then show ?thesis using assms(1) not_dbl_overflow_mono by blast
qed

lemma py_truediv_float_path:
  assumes "\<not> (\<exists>i j. a = PyInt i \<and> b = PyInt j)"
  shows "py_truediv a b =
      (case to_float a of
         Inl e \<Rightarrow> Inl e
       | Inr x \<Rightarrow>
           (case to_float b of
              Inl e \<Rightarrow> Inl e
            | Inr y \<Rightarrow> (if y = Fin 0 then Inl ZeroDivisionError else Inr (float_div x y))))"
  using assms by (cases a; cases b) (auto simp add: py_truediv_def)

lemma py_truediv_in_range:
  assumes "\<not> dbl_overflow a" and "\<not> dbl_overflow b"
  shows "py_truediv (py_number_of a) (py_number_of b) =
           (if b = 0 then Inl ZeroDivisionError else Inr (round_float (a / b)))"
proof (cases "a = of_int \<lfloor>a\<rfloor> \<and> b = of_int \<lfloor>b\<rfloor>")
  case True
  then obtain i j where a: "a = of_int i" and b: "b = of_int j" by blast
  have ai: "py_number_of a = PyInt i" and bj: "py_number_of b = PyInt j"
    by (simp_all add: py_number_of_def a b)
  show ?thesis
  proof (cases "j = 0")
    case True
    then have "b = 0" using b by simp
    moreover have "py_truediv (PyInt i) (PyInt j) = Inl ZeroDivisionError"
      using True by (simp add: py_truediv_def)
    ultimately show ?thesis unfolding ai bj by simp
  next
    case False
    then have "\<not> dbl_overflow (of_int i / of_int j)"
      using assms(1) a int_quotient_in_range by simp
    then have "py_truediv (PyInt i) (PyInt j) = Inr (round_float (of_int i / of_int j))"
      using False by (simp add: py_truediv_def round_float_in_range)
    moreover have "b \<noteq> 0" using False b by simp
    ultimately show ?thesis unfolding ai bj by (simp add: a b)
  qed
next
  case False
  then have "\<not> (\<exists>i j. py_number_of a = PyInt i \<and> py_number_of b = PyInt j)"
    by (auto simp add: py_number_of_def)
  then show ?thesis using assms
    by (simp add: py_truediv_float_path to_float_py_number_of)
qed

lemma round_float_cases:
  "round_float q =
     (if dbl_bound \<le> q then PInf else if q \<le> - dbl_bound then NInf else Fin q)"
  using one_less_dbl_bound by (auto simp add: round_float_def dbl_overflow_def)

text \<open>
  C4, as the specification has it, fails on the code. The price \<open>2^1023\<close> over the last
  dividend \<open>0.5\<close> is beyond the range of a double: \<open>pe_ratio\<close> returns the infinity.
  And with the \<open>int\<close> price \<open>10^400\<close> and the last dividend 1, which is not zero,
  \<open>pe_ratio\<close> fails, with \<open>OverflowError\<close>.
\<close>

theorem pe_ratio_infinite_counterexample:
  "pe_ratio (Stock_init ''BIG'' ''Common'' (1 / 2) None 100) (2 ^ 1023) = Inr PInf \<and>
   pe_ratio (Stock_init ''ONE'' ''Common'' 1 None 100) (10 ^ 400) = Inl OverflowError"
  by (simp add: pe_ratio_def py_truediv_def py_number_of_def to_float_def float_of_int_def
      round_float_def dbl_overflow_def dbl_bound_def Stock_init_def)

text \<open>
  C4, amended. For a price and a last dividend within the range of a double,
  \<open>pe_ratio\<close> fails exactly when the last dividend is zero, with the division's
  \<open>ZeroDivisionError\<close>. In every other case it returns \<open>price / last_dividend\<close> when
  that quotient is within the range of a double, and the infinity of its sign when it is
  not; it never returns a NaN. With the last dividend 8, \<open>pe_ratio(120)\<close> is 15.
\<close>

theorem pe_ratio_in_range:
  assumes "\<not> dbl_overflow p" and "\<not> dbl_overflow (last_dividend self)"
  shows "(pe_ratio self p = Inl ZeroDivisionError) = (last_dividend self = 0) \<and>
         (\<exists>e. pe_ratio self p = Inl e) = (last_dividend self = 0) \<and>
         pe_ratio self p =
           (if last_dividend self = 0 then Inl ZeroDivisionError
            else if dbl_bound \<le> p / last_dividend self then Inr PInf
            else if p / last_dividend self \<le> - dbl_bound then Inr NInf
            else Inr (Fin (p / last_dividend self))) \<and>
         pe_ratio self p \<noteq> Inr NaN"
proof -
  have eq: "pe_ratio self p =
      (if last_dividend self = 0 then Inl ZeroDivisionError
       else Inr (round_float (p / last_dividend self)))"
    unfolding pe_ratio_def by (rule py_truediv_in_range [OF assms])
  show ?thesis
    unfolding eq round_float_cases by auto
qed

theorem pe_ratio_in_range_witness:
  "pe_ratio pop 120 = Inr (Fin 15) \<and> pe_ratio tea 110 = Inl ZeroDivisionError"
proof -
  have a: "\<not> dbl_overflow 120" "\<not> dbl_overflow (last_dividend pop)"
    by (simp_all add: dbl_overflow_def dbl_bound_def pop_def Stock_init_def)
  have b: "\<not> dbl_overflow 110" "\<not> dbl_overflow (last_dividend tea)"
    by (simp_all add: dbl_overflow_def dbl_bound_def tea_def Stock_init_def)
  have "pe_ratio pop 120 = Inr (Fin 15)"
    using pe_ratio_in_range [OF a] by (simp add: pop_def Stock_init_def dbl_bound_def)
  moreover have "pe_ratio tea 110 = Inl ZeroDivisionError"
    using pe_ratio_in_range [OF b] by (simp add: tea_def Stock_init_def)
  ultimately show ?thesis by simp
qed

section \<open>Dividend yield\<close>



section \<open>Volume weighted stock price\<close>








section \<open>Recording trades\<close>

text \<open>
  C9. \<open>record_trade\<close> appends exactly one trade, stamped with the clock's reading, at the
  end of the stock's trades: the list grows by one, the trades recorded before are its
  prefix, unchanged and in their order, and the symbol, the stock type, the last dividend,
  the fixed dividend and the par value are as before. In the store, the object the method
  was called on is the only one that changes.
\<close>

theorem record_trade_appends_one:
  "trades (record_trade self now q a p) =
     trades self @ [\<lparr>timestamp = now, quantity = q, action = a, price = p\<rparr>] \<and>
   length (trades (record_trade self now q a p)) = Suc (length (trades self)) \<and>
   take (length (trades self)) (trades (record_trade self now q a p)) = trades self \<and>
   timestamp (last (trades (record_trade self now q a p))) = now \<and>
   symbol (record_trade self now q a p) = symbol self \<and>
   stock_type (record_trade self now q a p) = stock_type self \<and>
   last_dividend (record_trade self now q a p) = last_dividend self \<and>
   fixed_dividend (record_trade self now q a p) = fixed_dividend self \<and>
   par_value (record_trade self now q a p) = par_value self \<and>
   store_record_trade h r now q a p =
     (\<lambda>r'. if r' = r then record_trade (h r) now q a p else h r')"
  by (auto simp add: record_trade_def store_record_trade_def)

text \<open>
  C5, as the specification has it, fails on the code: a trade of quantity zero, and a trade
  with the price \<open>-5\<close> and the action \<open>hold\<close>, are both appended, and the second one
  moves the volume weighted price of the stock from 130 to 62.5.
\<close>

theorem record_trade_rejects_counterexample:
  "trades (record_trade ale 0 0 ''buy'' 130) =
     [\<lparr>timestamp = 0, quantity = 0, action = ''buy'', price = 130\<rparr>] \<and>
   trades (record_trade ale 0 150 ''hold'' (- 5)) =
     [\<lparr>timestamp = 0, quantity = 150, action = ''hold'', price = - 5\<rparr>] \<and>
   volume_weighted_stock_price (record_trade ale 0 150 ''buy'' 130) 0 = Inr 130 \<and>
   volume_weighted_stock_price
     (record_trade (record_trade ale 0 150 ''buy'' 130) 0 150 ''hold'' (- 5)) 0 = Inr (125 / 2)"
  by (simp add: record_trade_def volume_weighted_stock_price_def past_15_minutes_trades_def
      timedelta_minutes_def truediv_def ale_def Stock_init_def)

text \<open>
  C5, amended. \<open>record_trade\<close> checks nothing and never fails: whatever the quantity,
  the action and the price are, the trade is appended, it is inside the window of the
  volume weighted price read at that instant, and its price is in the list the index of a
  market holding the stock is computed from.
\<close>

theorem record_trade_accepts_everything:
  "trades (record_trade self now q a p) =
     trades self @ [\<lparr>timestamp = now, quantity = q, action = a, price = p\<rparr>] \<and>
   past_15_minutes_trades now (trades (record_trade self now q a p)) =
     past_15_minutes_trades now (trades self) @
       [\<lparr>timestamp = now, quantity = q, action = a, price = p\<rparr>] \<and>
   prices (store_record_trade h r now q a p) (StockMarket_init h [r]) =
     prices h (StockMarket_init h [r]) @ [p]"
  by (simp add: record_trade_def past_15_minutes_trades_def timedelta_minutes_def
      prices_def store_record_trade_def StockMarket_init_def)

section \<open>Dividend yield outside its intended inputs\<close>



section \<open>The market and its index\<close>

lemma map_of_foldl_update:
  "map_of (foldl (\<lambda>d stock. AList.update (f stock) stock d) d0 rs) =
     map_of d0 ++ map_of (rev (map (\<lambda>r. (f r, r)) rs))"
proof (induction rs arbitrary: d0)
  case Nil
  show ?case by simp
next
  case (Cons r rs)
  show ?case
    by (rule ext) (simp add: Cons.IH AList.update_conv' map_add_def split: option.splits)
qed

lemma distinct_foldl_update:
  "distinct (map fst d0) \<Longrightarrow>
   distinct (map fst (foldl (\<lambda>d stock. AList.update (f stock) stock d) d0 rs))"
  by (induction rs arbitrary: d0) (simp_all add: AList.distinct_update)

lemma keys_foldl_update:
  "set (map fst (foldl (\<lambda>d stock. AList.update (f stock) stock d) d0 rs)) =
     set (map fst d0) \<union> f ` set rs"
proof (induction rs arbitrary: d0)
  case Nil
  show ?case by simp
next
  case (Cons r rs)
  have "fst ` set (AList.update (f r) r d0) = {f r} \<union> fst ` set d0"
    by (rule AList.dom_update)
  then show ?case using Cons.IH [of "AList.update (f r) r d0"] by auto
qed

text \<open>
  C10. The constructor of \<open>StockMarket\<close> never fails and builds a dictionary with one
  entry for each symbol of the stocks it is given: the keys are distinct, they are exactly
  the symbols of the list, and a symbol is mapped to the last stock of the list that
  carries it. Of two stocks called \<open>POP\<close> the second is the one the market keeps.
\<close>

theorem StockMarket_init_last_wins:
  "distinct (map fst (stocks (StockMarket_init h rs))) \<and>
   set (map fst (stocks (StockMarket_init h rs))) = set (map (\<lambda>r. symbol (h r)) rs) \<and>
   map_of (stocks (StockMarket_init h rs)) = map_of (rev (map (\<lambda>r. (symbol (h r), r)) rs)) \<and>
   map_of (stocks (StockMarket_init h (rs @ [r]))) (symbol (h r)) = Some r \<and>
   stocks (StockMarket_init two_pops [0, 1]) = [(''POP'', 1)]"
proof -
  have d: "distinct (map fst (stocks (StockMarket_init h rs)))"
    by (simp add: StockMarket_init_def distinct_foldl_update)
  have k: "set (map fst (stocks (StockMarket_init h rs))) = set (map (\<lambda>r. symbol (h r)) rs)"
    using keys_foldl_update [of "\<lambda>r. symbol (h r)" "[]" rs]
    by (simp add: StockMarket_init_def)
  have m: "map_of (stocks (StockMarket_init h rs)) = map_of (rev (map (\<lambda>r. (symbol (h r), r)) rs))"
    for rs
    using map_of_foldl_update [of "\<lambda>r. symbol (h r)" "[]" rs]
    by (simp add: StockMarket_init_def)
  have l: "map_of (stocks (StockMarket_init h (rs @ [r]))) (symbol (h r)) = Some r"
    by (simp add: m)
  have e: "stocks (StockMarket_init two_pops [0, 1]) = [(''POP'', 1)]"
    by (simp add: StockMarket_init_def two_pops_def pop_def Stock_init_def)
  from d k m l e show ?thesis by blast
qed

lemma length_prices:
  "length (prices h self) = (\<Sum>stock\<leftarrow>map snd (stocks self). length (trades (h stock)))"
  by (simp add: prices_def length_concat comp_def)

lemma stocks_gbce:
  "stocks gbce = [(''TEA'', 0), (''POP'', 1), (''ALE'', 2), (''GIN'', 3), (''JOE'', 4)]"
  by (simp add: gbce_def StockMarket_init_def example_store_def tea_def pop_def ale_def
      gin_def joe_def Stock_init_def)

lemma prices_example_store: "prices example_store gbce = []"
  by (simp add: prices_def stocks_gbce example_store_def tea_def pop_def ale_def
      gin_def joe_def Stock_init_def)



text \<open>
  C8. When the stocks of the market hold no trade at all, \<open>gbce_all_share_index\<close> fails:
  \<open>1.0 / len(prices)\<close> raises \<open>ZeroDivisionError\<close>.
\<close>

theorem gbce_all_share_index_no_trades:
  assumes "(\<Sum>stock\<leftarrow>map snd (stocks self). length (trades (h stock))) = 0"
  shows "gbce_all_share_index h self = Inl ZeroDivisionError"
proof -
  from assms have "length (prices h self) = 0" by (simp only: length_prices)
  then show ?thesis
    using one_less_dbl_bound
    by (simp add: gbce_all_share_index_def py_truediv_def to_float_def float_of_int_def
        dbl_overflow_def)
qed

theorem gbce_all_share_index_no_trades_witness:
  "(\<Sum>stock\<leftarrow>map snd (stocks gbce). length (trades (example_store stock))) = 0 \<and>
   gbce_all_share_index example_store gbce = Inl ZeroDivisionError"
proof -
  have a: "(\<Sum>stock\<leftarrow>map snd (stocks gbce). length (trades (example_store stock))) = 0"
    using prices_example_store length_prices [of example_store gbce] by simp
  from a gbce_all_share_index_no_trades [OF a] show ?thesis by simp
qed










end
